theory Spec2Isabelle
  imports Main "HOL-Library.Sublist"
begin

section \<open>Python values used by the relay\<close>

text \<open>
  A Python \<open>str\<close> is modelled as a \<open>string\<close>: one \<open>char\<close> per code point, so
  \<open>length\<close> and \<open>take\<close> count what \<open>len\<close> and slicing count. HOL's \<open>char\<close> has 256
  values, so the text handled here is the text whose code points lie below 256.
\<close>

definition isspace :: "char \<Rightarrow> bool" where
  \<comment> \<open>\<open>str.isspace\<close> on code points below 256: TAB..CR, FS..US, SPACE, NEL, NBSP.\<close>
  "isspace c =
     (let n = (of_char c :: nat)
      in (9 \<le> n \<and> n \<le> 13) \<or> (28 \<le> n \<and> n \<le> 32) \<or> n = 133 \<or> n = 160)"

definition strip :: "string \<Rightarrow> string" where
  \<comment> \<open>\<open>s.strip()\<close>: whitespace removed at both ends.\<close>
  "strip s = rev (dropWhile isspace (rev (dropWhile isspace s)))"

definition lower_char :: "char \<Rightarrow> char" where
  "lower_char c =
     (let n = (of_char c :: nat)
      in if (65 \<le> n \<and> n \<le> 90) \<or> (192 \<le> n \<and> n \<le> 222 \<and> n \<noteq> 215)
         then char_of (n + 32) else c)"

definition lower :: "string \<Rightarrow> string" where
  \<comment> \<open>\<open>s.lower()\<close>\<close>
  "lower s = map lower_char s"

definition replace_char :: "char \<Rightarrow> char \<Rightarrow> string \<Rightarrow> string" where
  \<comment> \<open>\<open>s.replace(a, b)\<close> for one-character \<open>a\<close> and \<open>b\<close>\<close>
  "replace_char a b s = map (\<lambda>c. if c = a then b else c) s"

fun join :: "string \<Rightarrow> string list \<Rightarrow> string" where
  \<comment> \<open>\<open>sep.join(xs)\<close>\<close>
  "join sep [] = []"
| "join sep [x] = x"
| "join sep (x # y # ys) = x @ sep @ join sep (y # ys)"

definition or_else :: "string option \<Rightarrow> string \<Rightarrow> string" where
  \<comment> \<open>\<open>x or d\<close> for an optional string \<open>x\<close>: \<open>None\<close> and \<open>""\<close> are both falsy.\<close>
  "or_else x d = (case x of None \<Rightarrow> d | Some s \<Rightarrow> if s = [] then d else s)"

definition digit_char :: "nat \<Rightarrow> char" where
  "digit_char d = char_of (48 + d)"

function str_nat :: "nat \<Rightarrow> string" where
  \<comment> \<open>\<open>str(n)\<close> for a non-negative integer\<close>
  "str_nat n =
     (if n < 10 then [digit_char n] else str_nat (n div 10) @ [digit_char (n mod 10)])"
  by pat_completeness auto
termination
  by (relation "measure id") auto

definition newline :: string where
  "newline = [CHR 0x0A]"

definition crlf :: string where
  "crlf = [CHR 0x0D, CHR 0x0A]"

text \<open>
  Exceptions. Everything that the calls wrapped by the relay raise (a timed-out, missing
  or forbidden subprocess, a failing database statement, a method call on \<open>None\<close>) is
  an instance of a subclass of \<open>Exception\<close>, which is what the source's handlers catch;
  \<open>exc_text\<close> is \<open>str(e)\<close>.
\<close>

datatype exc_class =
    TimeoutExpired | FileNotFoundError | PermissionError | OSError | ValueError
  | UnicodeDecodeError | AttributeError | RuntimeError | DatabaseError

datatype py_exception = Exc (exc_cls: exc_class) (exc_text: string)

section \<open>Configuration and the world outside the process\<close>

record config =
  tgpt_bin :: string          \<comment> \<open>\<open>TGPT_BIN\<close>\<close>
  tgpt_timeout :: int         \<comment> \<open>\<open>TGPT_TIMEOUT\<close>, seconds\<close>
  dataset_dir :: string       \<comment> \<open>\<open>DATASET_DIR\<close>\<close>
  use_db :: bool              \<comment> \<open>\<open>USE_DB\<close>\<close>
  brainstorm_guidance :: string
    \<comment> \<open>the literal \<open>guidance\<close> of \<open>build_brainstorm_prompt\<close>, whose text is not ASCII\<close>

definition VALID_PROVIDERS :: "string list" where
  "VALID_PROVIDERS = [''pollinations'', ''sky'', ''phind'', ''koboldai'', ''kimi'']"

definition GROUP_LIST :: "string list" where
  "GROUP_LIST = VALID_PROVIDERS"

text \<open>What \<open>subprocess.run(..., capture_output=True, text=True, timeout=...)\<close> gives back.\<close>

record completed_process =
  returncode :: int
  stdout :: "string option"
  stderr :: "string option"

datatype run_outcome = Completes completed_process | Raises py_exception

text \<open>
  What the first \<open>asyncio.run\<close> of \<open>run_tgpt\<close> (lines 152-156) gives back: the process
  it created, or the exception raised on the way (a failed launch, a timeout). The
  pipes of a created process belong to the event loop of that call, which
  \<open>asyncio.run\<close> closes when it returns; \<open>loop_error\<close> is the text of the \<open>RuntimeError\<close>
  that awaiting them under another event loop raises.
\<close>

datatype process = Process (loop_error: string)

datatype exec_outcome = Created process | ExecRaises py_exception

text \<open>One row of the table \<open>conversations\<close>; the list order is the order of \<open>id\<close>.\<close>

record conversation =
  c_session_id :: string
  c_provider :: string
  c_message :: string
  c_type :: string
  c_timestamp :: string

text \<open>
  The connection \<open>db_conn\<close>. Each statement either is carried out or raises; which one
  is the server's choice, given by \<open>db_fault\<close> at the number of the statement.
  \<open>db_syntax_error\<close> is what the server raises for a statement it cannot parse.
\<close>

record database =
  conversations :: "conversation list"
  db_fault :: "nat \<Rightarrow> py_exception option"
  db_syntax_error :: py_exception
  db_ops :: nat

record world =
  subprocess_run :: "nat \<Rightarrow> string list \<Rightarrow> int \<Rightarrow> run_outcome"
    \<comment> \<open>outcome of the k-th launch, for its argument vector and timeout\<close>
  asyncio_exec :: "nat \<Rightarrow> string list \<Rightarrow> int \<Rightarrow> exec_outcome"
  invocations :: "string list list"   \<comment> \<open>argument vectors launched so far\<close>
  now_at :: "nat \<Rightarrow> string"           \<comment> \<open>local time, formatted, at the k-th reading of the clock\<close>
  epoch_at :: "nat \<Rightarrow> nat"            \<comment> \<open>\<open>int(time.time())\<close> at the k-th reading\<close>
  ticks :: nat
  db_conn :: "database option"        \<comment> \<open>\<open>None\<close> when the connection failed at start-up\<close>
  files :: "string \<rightharpoonup> string"         \<comment> \<open>path to content; the file store accepts every write\<close>
  console :: "string list"            \<comment> \<open>lines printed\<close>

definition now_str :: "world \<Rightarrow> string \<times> world" where
  \<comment> \<open>\<open>_now_str()\<close>\<close>
  "now_str w = (now_at w (ticks w), w\<lparr>ticks := Suc (ticks w)\<rparr>)"

definition time_time :: "world \<Rightarrow> nat \<times> world" where
  "time_time w = (epoch_at w (ticks w), w\<lparr>ticks := Suc (ticks w)\<rparr>)"

definition print_line :: "world \<Rightarrow> string \<Rightarrow> world" where
  "print_line w s = w\<lparr>console := console w @ [s]\<rparr>"

section \<open>Backend invoker\<close>

definition tgpt_cmd :: "config \<Rightarrow> string \<Rightarrow> string \<Rightarrow> string list" where
  "tgpt_cmd cfg provider prompt = [tgpt_bin cfg, ''-w'', ''--provider'', provider, prompt]"

definition error_text :: "string \<Rightarrow> string \<Rightarrow> string" where
  \<comment> \<open>\<open>f"[{provider} error] {msg}"\<close>\<close>
  "error_text provider msg = ''['' @ provider @ '' error] '' @ msg"

definition no_output_text :: "string \<Rightarrow> string" where
  \<comment> \<open>\<open>f"[{provider}] (no output)"\<close>\<close>
  "no_output_text provider = ''['' @ provider @ ''] (no output)''"

definition launch :: "world \<Rightarrow> string list \<Rightarrow> int \<Rightarrow> run_outcome \<times> world" where
  \<comment> \<open>\<open>subprocess.run(cmd, capture_output=True, text=True, timeout=t)\<close>\<close>
  "launch w cmd t =
     (subprocess_run w (length (invocations w)) cmd t,
      w\<lparr>invocations := invocations w @ [cmd]\<rparr>)"

definition run_tgpt_blocking ::
  "config \<Rightarrow> world \<Rightarrow> string \<Rightarrow> string \<Rightarrow> (py_exception + string) \<times> world" where
  \<comment> \<open>The result is what the worker's future holds: \<open>Inl\<close> an exception that left the
      function, \<open>Inr\<close> the string returned.\<close>
  "run_tgpt_blocking cfg w provider prompt =
     (case launch w (tgpt_cmd cfg provider prompt) (tgpt_timeout cfg) of
        (Raises e, w') \<Rightarrow> (Inr (error_text provider (exc_text e)), w')
      | (Completes res, w') \<Rightarrow>
          (let text = strip (or_else (stdout res) [])
           in if text = []
              then (let err = strip (or_else (stderr res) [])
                    in (Inr (if err \<noteq> [] then error_text provider (take 800 err)
                             else no_output_text provider), w'))
              else (Inr text, w')))"




section \<open>Fan-out coordinator\<close>

record provider_reply =
  r_provider :: string
  r_reply :: string
  r_timestamp :: string

text \<open>
  The loop of lines 189-190 hands one call of \<open>run_tgpt_blocking\<close> per provider to the
  executor, and \<open>gather(..., return_exceptions=True)\<close> yields the results of the tasks in
  the order of the tasks, an exception standing for a task that raised. The launches are
  recorded in the order of submission.
\<close>

fun run_tasks ::
  "config \<Rightarrow> world \<Rightarrow> string list \<Rightarrow> string \<Rightarrow> (py_exception + string) list \<times> world" where
  "run_tasks cfg w [] prompt = ([], w)"
| "run_tasks cfg w (p # ps) prompt =
     (let (r, w1) = run_tgpt_blocking cfg w p prompt;
          (rs, w2) = run_tasks cfg w1 ps prompt
      in (r # rs, w2))"

fun assemble ::
  "world \<Rightarrow> (string \<times> (py_exception + string)) list \<Rightarrow> provider_reply list \<times> world" where
  \<comment> \<open>the loop of lines 193-198 over \<open>zip(providers, results)\<close>\<close>
  "assemble w [] = ([], w)"
| "assemble w ((p, r) # prs) =
     (let text = (case r of Inl e \<Rightarrow> error_text p (exc_text e) | Inr s \<Rightarrow> s);
          (ts, w1) = now_str w;
          (out, w2) = assemble w1 prs
      in (\<lparr>r_provider = p, r_reply = text, r_timestamp = ts\<rparr> # out, w2))"

definition ask_providers_parallel ::
  "config \<Rightarrow> world \<Rightarrow> string list \<Rightarrow> string \<Rightarrow> provider_reply list \<times> world" where
  "ask_providers_parallel cfg w providers prompt =
     (let (results, w1) = run_tasks cfg w providers prompt
      in assemble w1 (zip providers results))"

section \<open>Session recorder\<close>

record entry =
  e_provider :: string
  e_message :: string
  e_timestamp :: string
  e_type :: "string option"   \<comment> \<open>the key \<open>type\<close>, absent from the rows of \<open>fetch_history\<close>\<close>

definition db_execute :: "database \<Rightarrow> py_exception option \<times> database" where
  \<comment> \<open>\<open>cur.execute(...)\<close>: the exception raised, if any\<close>
  "db_execute db = (db_fault db (db_ops db), db\<lparr>db_ops := Suc (db_ops db)\<rparr>)"

definition no_cursor :: py_exception where
  \<comment> \<open>\<open>db_conn.cursor()\<close> when \<open>db_conn\<close> is \<open>None\<close>\<close>
  "no_cursor = Exc AttributeError
     ([CHR 0x27] @ ''NoneType'' @ [CHR 0x27] @ '' object has no attribute ''
        @ [CHR 0x27] @ ''cursor'' @ [CHR 0x27])"

definition insert_conversation ::
  "world \<Rightarrow> string \<Rightarrow> string \<Rightarrow> string \<Rightarrow> string \<Rightarrow> (py_exception + unit) \<times> world" where
  \<comment> \<open>the \<open>try\<close> block of \<open>save_to_db\<close>, lines 58-62\<close>
  "insert_conversation w session_id provider message mtype =
     (case db_conn w of
        None \<Rightarrow> (Inl no_cursor, w)
      | Some db \<Rightarrow>
          (let (ts, w1) = now_str w;
               (fault, db1) = db_execute db
           in case fault of
                Some e \<Rightarrow> (Inl e, w1\<lparr>db_conn := Some db1\<rparr>)
              | None \<Rightarrow>
                  (Inr (),
                   w1\<lparr>db_conn := Some (db1\<lparr>conversations := conversations db1 @
                      [\<lparr>c_session_id = session_id, c_provider = provider,
                        c_message = message, c_type = mtype, c_timestamp = ts\<rparr>]\<rparr>)\<rparr>)))"

definition save_to_db ::
  "config \<Rightarrow> world \<Rightarrow> string \<Rightarrow> string \<Rightarrow> string \<Rightarrow> string \<Rightarrow> world" where
  "save_to_db cfg w session_id provider message mtype =
     (if \<not> use_db cfg then w
      else case insert_conversation w session_id provider message mtype of
             (Inl e, w') \<Rightarrow> print_line w' (''[DB] insert failed: '' @ exc_text e)
           | (Inr _, w') \<Rightarrow> w')"

definition select_history ::
  "world \<Rightarrow> string \<Rightarrow> int \<Rightarrow> (py_exception + entry list) \<times> world" where
  \<comment> \<open>the \<open>try\<close> block of \<open>fetch_history\<close>, lines 69-75; a negative \<open>LIMIT\<close> is
      rejected by the server\<close>
  "select_history w session_id limit =
     (case db_conn w of
        None \<Rightarrow> (Inl no_cursor, w)
      | Some db \<Rightarrow>
          (let (fault, db1) = db_execute db;
               w1 = w\<lparr>db_conn := Some db1\<rparr>
           in case fault of
                Some e \<Rightarrow> (Inl e, w1)
              | None \<Rightarrow>
                  if limit < 0 then (Inl (db_syntax_error db1), w1)
                  else (Inr (map (\<lambda>c. \<lparr>e_provider = c_provider c, e_message = c_message c,
                                         e_timestamp = c_timestamp c, e_type = None\<rparr>)
                               (take (nat limit)
                                  (filter (\<lambda>c. c_session_id c = session_id) (conversations db1)))),
                        w1)))"

definition fetch_history :: "config \<Rightarrow> world \<Rightarrow> string \<Rightarrow> int \<Rightarrow> entry list \<times> world" where
  "fetch_history cfg w session_id limit =
     (if \<not> use_db cfg then ([], w)
      else case select_history w session_id limit of
             (Inl e, w') \<Rightarrow> ([], print_line w' (''[DB] history failed: '' @ exc_text e))
           | (Inr rows, w') \<Rightarrow> (rows, w'))"

section \<open>Dataset exporter\<close>

definition dataset_path :: "config \<Rightarrow> world \<Rightarrow> string \<Rightarrow> string \<Rightarrow> string \<times> world" where
  \<comment> \<open>\<open>DATASET_DIR / name\<close> for a directory other than the root\<close>
  "dataset_path cfg w filename fmt =
     (let (name, w1) =
            (if filename \<noteq> [] then (filename, w)
             else (let (t, w') = time_time w in (''dataset_'' @ str_nat t, w')));
          safe_name = replace_char (CHR ''/'') (CHR ''_'') (strip name);
          ext = (if fmt = ''csv'' then ''.csv'' else ''.json'')
      in (dataset_dir cfg @ ''/'' @ safe_name @ ext, w1))"

text \<open>\<open>csv.writer(f).writerow\<close> on strings, in the default dialect.\<close>

definition csv_special :: "char \<Rightarrow> bool" where
  "csv_special c = (c = CHR '','' \<or> c = CHR 0x22 \<or> c = CHR 0x0D \<or> c = CHR 0x0A)"

definition csv_field :: "string \<Rightarrow> string" where
  "csv_field s =
     (if list_ex csv_special s
      then [CHR 0x22] @ concat (map (\<lambda>c. if c = CHR 0x22 then [c, c] else [c]) s) @ [CHR 0x22]
      else s)"

definition csv_writerow :: "string list \<Rightarrow> string" where
  "csv_writerow row =
     (if row = [[]] then [CHR 0x22, CHR 0x22] else join '','' (map csv_field row)) @ crlf"

text \<open>\<open>json.dumps(..., ensure_ascii=False)\<close> on strings, objects and lists.\<close>

definition hex_digit :: "nat \<Rightarrow> char" where
  "hex_digit d = (if d < 10 then char_of (48 + d) else char_of (87 + d))"

definition json_escape :: "char \<Rightarrow> string" where
  "json_escape c =
     (let n = (of_char c :: nat)
      in if c = CHR 0x22 then [CHR 0x5C, CHR 0x22]
         else if c = CHR 0x5C then [CHR 0x5C, CHR 0x5C]
         else if n = 10 then [CHR 0x5C, CHR ''n'']
         else if n = 13 then [CHR 0x5C, CHR ''r'']
         else if n = 9 then [CHR 0x5C, CHR ''t'']
         else if n = 8 then [CHR 0x5C, CHR ''b'']
         else if n = 12 then [CHR 0x5C, CHR ''f'']
         else if n < 32 then [CHR 0x5C, CHR ''u'', CHR ''0'', CHR ''0'',
                              hex_digit (n div 16), hex_digit (n mod 16)]
         else [c])"

definition json_string :: "string \<Rightarrow> string" where
  "json_string s = [CHR 0x22] @ concat (map json_escape s) @ [CHR 0x22]"

definition json_object :: "(string \<times> string) list \<Rightarrow> string" where
  \<comment> \<open>keys with their values already encoded\<close>
  "json_object kvs =
     ''{'' @ join '', '' (map (\<lambda>(k, v). json_string k @ '': '' @ v) kvs) @ ''}''"

definition json_array :: "string list \<Rightarrow> string" where
  "json_array xs = ''['' @ join '', '' xs @ '']''"

definition file_content :: "world \<Rightarrow> string \<Rightarrow> string" where
  "file_content w fp = (case files w fp of None \<Rightarrow> [] | Some c \<Rightarrow> c)"

definition open_append :: "world \<Rightarrow> string \<Rightarrow> world" where
  \<comment> \<open>\<open>fp.open("a")\<close> creates the file when it is missing\<close>
  "open_append w fp = w\<lparr>files := (files w)(fp \<mapsto> file_content w fp)\<rparr>"

definition file_write :: "world \<Rightarrow> string \<Rightarrow> string \<Rightarrow> world" where
  \<comment> \<open>a write through a handle opened for appending; a line feed is written as it is\<close>
  "file_write w fp s = w\<lparr>files := (files w)(fp \<mapsto> file_content w fp @ s)\<rparr>"

definition type_or_bot :: "entry \<Rightarrow> string" where
  \<comment> \<open>\<open>e.get("type","bot")\<close>\<close>
  "type_or_bot e = (case e_type e of None \<Rightarrow> ''bot'' | Some t \<Rightarrow> t)"

definition csv_header :: "string list" where
  "csv_header = [''timestamp'', ''session_id'', ''provider'', ''message'', ''type'']"

definition csv_line :: "string \<Rightarrow> entry \<Rightarrow> string" where
  "csv_line session_id e =
     csv_writerow [e_timestamp e, session_id, e_provider e, e_message e, type_or_bot e]"

definition json_line :: "string \<Rightarrow> entry \<Rightarrow> string" where
  "json_line session_id e =
     json_object [(''timestamp'', json_string (e_timestamp e)),
                  (''session_id'', json_string session_id),
                  (''provider'', json_string (e_provider e)),
                  (''message'', json_string (e_message e)),
                  (''type'', json_string (type_or_bot e))] @ newline"

definition append_dataset_lines :: "world \<Rightarrow> string \<Rightarrow> string \<Rightarrow> string \<Rightarrow> entry list \<Rightarrow> world" where
  "append_dataset_lines w fp session_id fmt entries =
     (if fmt = ''csv''
      then (let exists = (files w fp \<noteq> None);
                w1 = open_append w fp;
                w2 = (if \<not> exists then file_write w1 fp (csv_writerow csv_header) else w1)
            in foldl (\<lambda>w' e. file_write w' fp (csv_line session_id e)) w2 entries)
      else (let w1 = open_append w fp
            in foldl (\<lambda>w' e. file_write w' fp (json_line session_id e)) w1 entries))"

definition json_entry :: "entry \<Rightarrow> string" where
  \<comment> \<open>one element of the dialog list, as \<open>json.dumps\<close> writes the dictionary\<close>
  "json_entry e =
     json_object ([(''provider'', json_string (e_provider e)),
                   (''message'', json_string (e_message e)),
                   (''timestamp'', json_string (e_timestamp e))] @
                  (case e_type e of None \<Rightarrow> [] | Some t \<Rightarrow> [(''type'', json_string t)]))"

definition append_dataset_dialog :: "world \<Rightarrow> string \<Rightarrow> string \<Rightarrow> string \<Rightarrow> entry list \<Rightarrow> world" where
  "append_dataset_dialog w fp session_id fmt dialog_list =
     (let (saved_at, w0) = now_str w;
          dialog_json = json_array (map json_entry dialog_list)
      in if fmt = ''csv''
         then (let exists = (files w0 fp \<noteq> None);
                   w1 = open_append w0 fp;
                   w2 = (if \<not> exists
                         then file_write w1 fp
                                (csv_writerow [''session_id'', ''saved_at'', ''dialog_json''])
                         else w1)
               in file_write w2 fp (csv_writerow [session_id, saved_at, dialog_json]))
         else (let w1 = open_append w0 fp
               in file_write w1 fp
                    (json_object [(''session_id'', json_string session_id),
                                  (''dialog'', dialog_json),
                                  (''saved_at'', json_string saved_at)] @ newline)))"

section \<open>Request handlers\<close>

text \<open>A response is the JSON body with its HTTP status.\<close>

datatype body =
    ErrorBody string                                  \<comment> \<open>\<open>{"error": ...}\<close>\<close>
  | MessageBody string                                \<comment> \<open>\<open>{"message": ...}\<close>\<close>
  | ReplyBody provider_reply "string option"          \<comment> \<open>one reply, with \<open>saved_to\<close> if set\<close>
  | MultiBody "provider_reply list" "string option"   \<comment> \<open>\<open>{"multi": [...]}\<close>, with \<open>saved_to\<close> if set\<close>

type_synonym response = "body \<times> nat"

record ask_request =
  form :: "string \<rightharpoonup> string"     \<comment> \<open>\<open>request.form\<close>\<close>
  upload_names :: "string list"   \<comment> \<open>the keys of \<open>request.files\<close>\<close>

fun save_replies ::
  "config \<Rightarrow> world \<Rightarrow> string \<Rightarrow> string \<Rightarrow> provider_reply list \<Rightarrow> entry list \<times> world" where
  \<comment> \<open>the loops of lines 251-256 and 313-318\<close>
  "save_replies cfg w session_id mtype [] = ([], w)"
| "save_replies cfg w session_id mtype (item # items) =
     (let w1 = save_to_db cfg w session_id (r_provider item) (r_reply item) mtype;
          (entries, w2) = save_replies cfg w1 session_id mtype items
      in (\<lparr>e_provider = r_provider item, e_message = r_reply item,
           e_timestamp = r_timestamp item, e_type = Some mtype\<rparr> # entries, w2))"

definition save_dataset_step ::
  "config \<Rightarrow> world \<Rightarrow> bool \<Rightarrow> string \<Rightarrow> string \<Rightarrow> string \<Rightarrow> string \<Rightarrow> entry list
     \<Rightarrow> string option \<times> world" where
  \<comment> \<open>lines 259-268 and 320-328: the value of \<open>saved\<close>\<close>
  "save_dataset_step cfg w save_dataset filename save_format save_shape session_id entries =
     (if save_dataset
      then (let (fp, w1) = dataset_path cfg w filename save_format
            in if save_shape = ''dialog''
               then (let (dialog, w2) =
                           (if use_db cfg then fetch_history cfg w1 session_id 500
                            else (entries, w1))
                     in (Some fp, append_dataset_dialog w2 fp session_id save_format dialog))
               else (Some fp, append_dataset_lines w1 fp session_id save_format entries))
      else (None, w))"

definition saved_to :: "string option \<Rightarrow> string option" where
  \<comment> \<open>the key \<open>saved_to\<close> is set when \<open>saved\<close> is truthy\<close>
  "saved_to saved = (case saved of None \<Rightarrow> None | Some s \<Rightarrow> if s = [] then None else Some s)"

definition ask_guidance :: string where
  "ask_guidance =
     ''Please answer clearly. If code is needed include it. Avoid repeating earlier content verbatim. ''
     @ ''If you refer to another bot, name it. Keep replies focused.''"

definition invalid_provider_text :: "string \<Rightarrow> string" where
  "invalid_provider_text provider =
     ''invalid provider '' @ [CHR 0x27] @ provider @ [CHR 0x27]"

definition ask_dispatch ::
  "config \<Rightarrow> world \<Rightarrow> string \<Rightarrow> string \<Rightarrow> bool \<Rightarrow> string \<Rightarrow> string \<Rightarrow> string
     \<Rightarrow> string list \<Rightarrow> response \<times> world" where
  \<comment> \<open>lines 239-276 of \<open>ask\<close>, once \<open>providers\<close> is set\<close>
  "ask_dispatch cfg w session_id query save_dataset save_format save_shape filename providers =
     (let prompt = (if query = [] then query else query @ newline @ newline @ ask_guidance);
          (replies, w2) = ask_providers_parallel cfg w providers prompt;
          (entries, w3) = save_replies cfg w2 session_id ''bot'' replies;
          (saved, w4) = save_dataset_step cfg w3 save_dataset filename
                          save_format save_shape session_id entries
      in if length replies = 1
         then ((ReplyBody (replies ! 0) (saved_to saved), 200), w4)
         else ((MultiBody replies (saved_to saved), 200), w4))"

definition ask :: "config \<Rightarrow> world \<Rightarrow> ask_request \<Rightarrow> response \<times> world" where
  "ask cfg w req =
     (let session_id = strip (or_else (form req ''session_id'') ''default'');
          provider = strip (or_else (form req ''provider'') ''phind'');
          query = strip (or_else (form req ''query'') []);
          save_dataset =
            (strip (case form req ''save_dataset'' of None \<Rightarrow> ''0'' | Some v \<Rightarrow> v)
               \<in> set [''1'', ''true'', ''True'', ''yes'', ''on'']);
          save_format = lower (strip (or_else (form req ''save_format'') ''csv''));
          save_shape = lower (strip (or_else (form req ''save_shape'') ''lines''));
          filename = strip (or_else (form req ''filename'') [])
      in if query = [] \<and> ''file'' \<notin> set (upload_names req)
         then ((ErrorBody ''empty query'', 200), w)
         else
           (let w1 = (if query \<noteq> [] then save_to_db cfg w session_id ''user'' query ''user''
                      else w)
            in if provider = ''group''
               then ask_dispatch cfg w1 session_id query save_dataset save_format save_shape
                      filename GROUP_LIST
               else if provider \<notin> set VALID_PROVIDERS
               then ((ErrorBody (invalid_provider_text provider), 200), w1)
               else ask_dispatch cfg w1 session_id query save_dataset save_format save_shape
                      filename [provider]))"

definition clear_history :: "world \<Rightarrow> string option \<Rightarrow> response \<times> world" where
  \<comment> \<open>the argument is \<open>request.form.get("session_id")\<close>; a missing one compares as \<open>NULL\<close>\<close>
  "clear_history w session_id =
     (case db_conn w of
        None \<Rightarrow> ((ErrorBody (exc_text no_cursor), 500), w)
      | Some db \<Rightarrow>
          (let (fault, db1) = db_execute db
           in case fault of
                Some e \<Rightarrow> ((ErrorBody (exc_text e), 500), w\<lparr>db_conn := Some db1\<rparr>)
              | None \<Rightarrow>
                  ((MessageBody ''History cleared successfully'', 200),
                   w\<lparr>db_conn := Some (db1\<lparr>conversations :=
                        filter (\<lambda>c. Some (c_session_id c) \<noteq> session_id) (conversations db1)\<rparr>)\<rparr>)))"

text \<open>
  The body of a \<open>/brainstorm\<close> request, at the types the handler expects of its keys;
  \<open>None\<close> is an absent key.
\<close>

record message =
  m_provider :: "string option"
  m_reply :: "string option"

record brainstorm_request =
  b_session_id :: "string option"
  b_providers :: "string list option"
  b_messages :: "message list option"
  b_save_dataset :: "bool option"
  b_save_format :: "string option"
  b_save_shape :: "string option"
  b_filename :: "string option"

definition prompt_lines :: "message list \<Rightarrow> string list" where
  \<comment> \<open>the loop of lines 119-123 over \<open>messages[-12:]\<close>\<close>
  "prompt_lines messages =
     concat (map (\<lambda>m. let prov = (case m_provider m of None \<Rightarrow> ''unknown'' | Some p \<Rightarrow> p);
                            txt = strip (case m_reply m of None \<Rightarrow> [] | Some t \<Rightarrow> t)
                        in if txt = [] then [] else [prov @ '': '' @ txt])
                 (drop (length messages - 12) messages))"

definition build_brainstorm_prompt :: "config \<Rightarrow> message list \<Rightarrow> string" where
  "build_brainstorm_prompt cfg messages =
     brainstorm_guidance cfg @ newline @ newline @ ''Context so far:'' @ newline
       @ join newline (prompt_lines messages)
       @ newline @ newline @ ''Your improved contribution:''"

definition resolve_providers :: "string list option \<Rightarrow> string list" where
  \<comment> \<open>lines 292 and 300-305\<close>
  "resolve_providers requested =
     (let providers = (case requested of None \<Rightarrow> [''group'']
                       | Some ps \<Rightarrow> if ps = [] then [''group''] else ps)
      in if providers = [''group''] \<or> (length providers = 1 \<and> providers ! 0 = ''group'')
         then GROUP_LIST
         else (let kept = filter (\<lambda>p. p \<in> set VALID_PROVIDERS) providers
               in if kept = [] then GROUP_LIST else kept))"

definition brainstorm :: "config \<Rightarrow> world \<Rightarrow> brainstorm_request \<Rightarrow> response \<times> world" where
  "brainstorm cfg w data =
     (let session_id = strip (or_else (b_session_id data) ''default'');
          providers = resolve_providers (b_providers data);
          messages = (case b_messages data of None \<Rightarrow> [] | Some ms \<Rightarrow> ms);
          save_dataset = (case b_save_dataset data of None \<Rightarrow> False | Some b \<Rightarrow> b);
          save_format = lower (strip (or_else (b_save_format data) ''csv''));
          save_shape = lower (strip (or_else (b_save_shape data) ''lines''));
          filename = strip (or_else (b_filename data) []);
          prompt = build_brainstorm_prompt cfg messages;
          (replies, w2) = ask_providers_parallel cfg w providers prompt;
          (entries, w3) = save_replies cfg w2 session_id ''brainstorm'' replies;
          (saved, w4) = save_dataset_step cfg w3 save_dataset filename
                          save_format save_shape session_id entries
      in ((MultiBody replies (saved_to saved), 200), w4))"

section \<open>Observations and a worked example\<close>

definition reply_content :: "response \<Rightarrow> (string \<times> string) list" where
  \<comment> \<open>the provider and reply text of every reply in a response\<close>
  "reply_content resp =
     (case fst resp of
        ReplyBody r _ \<Rightarrow> [(r_provider r, r_reply r)]
      | MultiBody rs _ \<Rightarrow> map (\<lambda>r. (r_provider r, r_reply r)) rs
      | _ \<Rightarrow> [])"

definition stored_rows :: "world \<Rightarrow> conversation list" where
  \<comment> \<open>the rows held by the storage backend\<close>
  "stored_rows w = (case db_conn w of None \<Rightarrow> [] | Some db \<Rightarrow> conversations db)"

definition demo_config :: config where
  "demo_config = \<lparr>tgpt_bin = ''tgpt'', tgpt_timeout = 75, dataset_dir = ''/data'',
                   use_db = True, brainstorm_guidance = ''Brainstorm.''\<rparr>"

definition demo_world :: "run_outcome \<Rightarrow> database option \<Rightarrow> world" where
  \<comment> \<open>a world in which every launch has the given outcome\<close>
  "demo_world outcome db =
     \<lparr>subprocess_run = (\<lambda>k cmd t. outcome),
      asyncio_exec = (\<lambda>k cmd t. case outcome of
                         Completes res \<Rightarrow> Created (Process ''attached to a different loop'')
                       | Raises e \<Rightarrow> ExecRaises e),
      invocations = [], now_at = (\<lambda>k. ''2024-01-01 00:00:00''), epoch_at = (\<lambda>k. 1704067200),
      ticks = 0, db_conn = db, files = Map.empty, console = []\<rparr>"

definition demo_database :: "py_exception option \<Rightarrow> database" where
  \<comment> \<open>an empty table on a server that answers every statement with the given fault\<close>
  "demo_database fault =
     \<lparr>conversations = [], db_fault = (\<lambda>k. fault),
      db_syntax_error = Exc DatabaseError ''syntax error'', db_ops = 0\<rparr>"

section \<open>The backend invoker returns a string\<close>

lemma run_tgpt_blocking_Completes:
  assumes "subprocess_run w (length (invocations w)) (tgpt_cmd cfg X T) (tgpt_timeout cfg) = Completes res"
  shows "fst (run_tgpt_blocking cfg w X T) =
           Inr (if strip (or_else (stdout res) []) \<noteq> [] then strip (or_else (stdout res) [])
                else if strip (or_else (stderr res) []) \<noteq> []
                     then error_text X (take 800 (strip (or_else (stderr res) [])))
                     else no_output_text X)"
  using assms by (simp add: run_tgpt_blocking_def launch_def Let_def)

lemma run_tgpt_blocking_Raises:
  assumes "subprocess_run w (length (invocations w)) (tgpt_cmd cfg X T) (tgpt_timeout cfg) = Raises e"
  shows "fst (run_tgpt_blocking cfg w X T) = Inr (error_text X (exc_text e))"
  using assms by (simp add: run_tgpt_blocking_def launch_def)

lemma run_tgpt_blocking_world:
  "snd (run_tgpt_blocking cfg w X T) = w\<lparr>invocations := invocations w @ [tgpt_cmd cfg X T]\<rparr>"
  by (simp add: run_tgpt_blocking_def launch_def Let_def split: run_outcome.splits)

lemma run_tgpt_blocking_returns:
  "\<exists>s. fst (run_tgpt_blocking cfg w X T) = Inr s"
proof (cases "subprocess_run w (length (invocations w)) (tgpt_cmd cfg X T) (tgpt_timeout cfg)")
  case (Completes res)
  then show ?thesis by (simp add: run_tgpt_blocking_Completes)
next
  case (Raises e)
  then show ?thesis by (simp add: run_tgpt_blocking_Raises)
qed

text \<open>
  Claim C2. When the subprocess completes within the timeout and its standard output is
  not empty once trimmed, \<open>run_tgpt_blocking\<close> returns exactly the trimmed standard
  output, whatever the standard error and the exit code are.
\<close>

theorem run_tgpt_blocking_output_wins:
  assumes "subprocess_run w (length (invocations w)) (tgpt_cmd cfg X T) (tgpt_timeout cfg)
             = Completes \<lparr>returncode = rc, stdout = out, stderr = err\<rparr>"
      and "strip (or_else out []) \<noteq> []"
  shows "fst (run_tgpt_blocking cfg w X T) = Inr (strip (or_else out []))"
  using assms by (simp add: run_tgpt_blocking_Completes)

theorem run_tgpt_blocking_output_wins_witness:
  "fst (run_tgpt_blocking demo_config
          (demo_world (Completes \<lparr>returncode = 1, stdout = Some ''  hello  '', stderr = Some ''warning''\<rparr>) None)
          ''sky'' ''hi'') = Inr ''hello''"
proof -
  let ?w = "demo_world (Completes \<lparr>returncode = 1, stdout = Some ''  hello  '', stderr = Some ''warning''\<rparr>) None"
  have run: "subprocess_run ?w (length (invocations ?w)) (tgpt_cmd demo_config ''sky'' ''hi'') (tgpt_timeout demo_config)
             = Completes \<lparr>returncode = 1, stdout = Some ''  hello  '', stderr = Some ''warning''\<rparr>"
    by (simp add: demo_world_def)
  have s: "strip (or_else (Some ''  hello  '') []) = ''hello''"
    by (simp add: strip_def or_else_def isspace_def)
  from run_tgpt_blocking_output_wins [OF run] s show ?thesis by simp
qed

text \<open>
  Claim C3. When the subprocess completes within the timeout and its trimmed standard
  output is empty, the invoker returns \<open>[X error]\<close>, a space and the first 800 characters
  of the trimmed standard error if that is not empty, and \<open>[X] (no output)\<close> if it is.
\<close>

theorem run_tgpt_blocking_empty_output:
  assumes "subprocess_run w (length (invocations w)) (tgpt_cmd cfg X T) (tgpt_timeout cfg)
             = Completes \<lparr>returncode = rc, stdout = out, stderr = err\<rparr>"
      and "strip (or_else out []) = []"
  shows "(strip (or_else err []) \<noteq> [] \<longrightarrow>
            fst (run_tgpt_blocking cfg w X T)
              = Inr (''['' @ X @ '' error] '' @ take 800 (strip (or_else err [])))) \<and>
         (strip (or_else err []) = [] \<longrightarrow>
            fst (run_tgpt_blocking cfg w X T) = Inr (''['' @ X @ ''] (no output)''))"
  using assms by (simp add: run_tgpt_blocking_Completes error_text_def no_output_text_def)

theorem run_tgpt_blocking_empty_output_witness:
  "fst (run_tgpt_blocking demo_config
          (demo_world (Completes \<lparr>returncode = 0, stdout = Some '' '', stderr = Some '' boom ''\<rparr>) None)
          ''sky'' ''hi'') = Inr ''[sky error] boom'' \<and>
   fst (run_tgpt_blocking demo_config
          (demo_world (Completes \<lparr>returncode = 0, stdout = Some [], stderr = None\<rparr>) None)
          ''sky'' ''hi'') = Inr ''[sky] (no output)''"
proof -
  let ?w1 = "demo_world (Completes \<lparr>returncode = 0, stdout = Some '' '', stderr = Some '' boom ''\<rparr>) None"
  let ?w2 = "demo_world (Completes \<lparr>returncode = 0, stdout = Some [], stderr = None\<rparr>) None"
  have run1: "subprocess_run ?w1 (length (invocations ?w1)) (tgpt_cmd demo_config ''sky'' ''hi'')
                (tgpt_timeout demo_config)
              = Completes \<lparr>returncode = 0, stdout = Some '' '', stderr = Some '' boom ''\<rparr>"
    by (simp add: demo_world_def)
  have run2: "subprocess_run ?w2 (length (invocations ?w2)) (tgpt_cmd demo_config ''sky'' ''hi'')
                (tgpt_timeout demo_config)
              = Completes \<lparr>returncode = 0, stdout = Some [], stderr = None\<rparr>"
    by (simp add: demo_world_def)
  have out1: "strip (or_else (Some '' '') []) = []"
    by (simp add: strip_def or_else_def isspace_def)
  have out2: "strip (or_else (Some []) []) = []"
    by (simp add: strip_def or_else_def)
  have err1: "strip (or_else (Some '' boom '') []) = ''boom''"
    by (simp add: strip_def or_else_def isspace_def)
  have err2: "strip (or_else None []) = []"
    by (simp add: strip_def or_else_def)
  from run_tgpt_blocking_empty_output [OF run1 out1] run_tgpt_blocking_empty_output [OF run2 out2]
  show ?thesis by (simp add: err1 err2)
qed

text \<open>
  Claim C4. \<open>run_tgpt_blocking\<close> always returns a string and lets no exception out; when
  the launch raises (a timeout, a missing binary, a refused permission) the string is
  \<open>[X error]\<close>, a space and the text of the exception, so it contains \<open>[X error]\<close>.
\<close>

theorem run_tgpt_blocking_total:
  "(\<exists>s. fst (run_tgpt_blocking cfg w X T) = Inr s) \<and>
   (subprocess_run w (length (invocations w)) (tgpt_cmd cfg X T) (tgpt_timeout cfg) = Raises e \<longrightarrow>
      fst (run_tgpt_blocking cfg w X T) = Inr (''['' @ X @ '' error] '' @ exc_text e) \<and>
      sublist (''['' @ X @ '' error]'') (''['' @ X @ '' error] '' @ exc_text e))"
proof -
  have "sublist (''['' @ X @ '' error]'') ([] @ (''['' @ X @ '' error]'') @ ('' '' @ exc_text e))"
    by (rule sublist_appendI)
  then have "sublist (''['' @ X @ '' error]'') (''['' @ X @ '' error] '' @ exc_text e)"
    by simp
  then show ?thesis
    using run_tgpt_blocking_returns [of cfg w X T]
    by (simp add: run_tgpt_blocking_Raises error_text_def)
qed

theorem run_tgpt_blocking_total_witness:
  "fst (run_tgpt_blocking demo_config
          (demo_world (Raises (Exc TimeoutExpired ''timed out after 75 seconds'')) None)
          ''sky'' ''hi'') = Inr ''[sky error] timed out after 75 seconds'' \<and>
   sublist ''[sky error]'' ''[sky error] timed out after 75 seconds''"
proof -
  let ?w = "demo_world (Raises (Exc TimeoutExpired ''timed out after 75 seconds'')) None"
  have run: "subprocess_run ?w (length (invocations ?w)) (tgpt_cmd demo_config ''sky'' ''hi'')
               (tgpt_timeout demo_config)
             = Raises (Exc TimeoutExpired ''timed out after 75 seconds'')"
    by (simp add: demo_world_def)
  from run_tgpt_blocking_total [of demo_config ?w "''sky''" "''hi''"
         "Exc TimeoutExpired ''timed out after 75 seconds''"] run
  show ?thesis by simp
qed

lemma run_tasks_length: "length (fst (run_tasks cfg w P T)) = length P"
  by (induction P arbitrary: w) (simp_all add: split_beta Let_def)

lemma assemble_providers: "map r_provider (fst (assemble w prs)) = map fst prs"
  by (induction prs arbitrary: w) (auto simp: split_beta Let_def)

lemma assemble_replies:
  "list_all (\<lambda>r. \<not> isl r) (map snd prs) \<Longrightarrow>
     map (\<lambda>x. Inr (r_reply x)) (fst (assemble w prs)) = map snd prs"
proof (induction prs arbitrary: w)
  case Nil
  show ?case by simp
next
  case (Cons pr prs)
  obtain p r where pr: "pr = (p, r)" by (cases pr)
  from Cons.prems pr obtain s where r: "r = Inr s"
    by (cases r) auto
  from Cons.prems have "list_all (\<lambda>r. \<not> isl r) (map snd prs)" by simp
  then have "map (\<lambda>x. Inr (r_reply x)) (fst (assemble (snd (now_str w)) prs)) = map snd prs"
    by (rule Cons.IH)
  then show ?case by (simp add: pr r split_beta Let_def)
qed

lemma run_tasks_all_Inr: "list_all (\<lambda>r. \<not> isl r) (fst (run_tasks cfg w P T))"
proof (induction P arbitrary: w)
  case Nil
  show ?case by simp
next
  case (Cons p ps)
  obtain s where "fst (run_tgpt_blocking cfg w p T) = Inr s"
    using run_tgpt_blocking_returns by blast
  with Cons show ?case by (simp add: split_beta Let_def)
qed

text \<open>
  Claim C1. For every list of providers \<open>P\<close> (empty or not) and every prompt,
  \<open>ask_providers_parallel\<close> returns exactly \<open>length P\<close> entries in the order of \<open>P\<close>: the
  i-th entry carries the provider \<open>P ! i\<close>, the string that the i-th invocation returned
  and a timestamp, whatever the outcomes of the launches are.
\<close>

theorem ask_providers_parallel_one_entry_per_provider:
  "length (fst (ask_providers_parallel cfg w P T)) = length P \<and>
   map r_provider (fst (ask_providers_parallel cfg w P T)) = P \<and>
   map (\<lambda>r. Inr (r_reply r)) (fst (ask_providers_parallel cfg w P T)) = fst (run_tasks cfg w P T)"
proof -
  let ?res = "fst (run_tasks cfg w P T)"
  let ?out = "fst (ask_providers_parallel cfg w P T)"
  have out: "?out = fst (assemble (snd (run_tasks cfg w P T)) (zip P ?res))"
    by (simp add: ask_providers_parallel_def split_beta)
  have len: "length ?res = length P" by (rule run_tasks_length)
  have prov: "map r_provider ?out = P"
    by (simp add: out assemble_providers len)
  have "list_all (\<lambda>r. \<not> isl r) (map snd (zip P ?res))"
    using len run_tasks_all_Inr [of cfg w P T] by simp
  then have "map (\<lambda>r. Inr (r_reply r)) ?out = map snd (zip P ?res)"
    unfolding out by (rule assemble_replies)
  then have rep: "map (\<lambda>r. Inr (r_reply r)) ?out = ?res"
    using len by simp
  from prov have "length ?out = length P"
    by (metis length_map)
  with prov rep show ?thesis by simp
qed

theorem ask_providers_parallel_one_entry_per_provider_witness:
  "map r_provider
     (fst (ask_providers_parallel demo_config
             (demo_world (Raises (Exc FileNotFoundError ''tgpt'')) None) [''sky'', ''phind'']
             ''hello'')) = [''sky'', ''phind'']"
  using ask_providers_parallel_one_entry_per_provider
          [of demo_config "demo_world (Raises (Exc FileNotFoundError ''tgpt'')) None"
              "[''sky'', ''phind'']" "''hello''"]
  by simp



section \<open>Session recorder: failures\<close>

lemma db_execute_simps:
  "fst (db_execute db) = db_fault db (db_ops db)"
  "conversations (snd (db_execute db)) = conversations db"
  by (simp_all add: db_execute_def)

lemma save_to_db_disabled: "\<not> use_db cfg \<Longrightarrow> save_to_db cfg w s p m t = w"
  by (simp add: save_to_db_def)

lemma save_to_db_failing:
  assumes "use_db cfg" and "fst (insert_conversation w s p m t) = Inl e"
  shows "save_to_db cfg w s p m t
           = print_line (snd (insert_conversation w s p m t)) (''[DB] insert failed: '' @ exc_text e)"
    and "stored_rows (save_to_db cfg w s p m t) = stored_rows w"
    and "console (save_to_db cfg w s p m t) = console w @ [''[DB] insert failed: '' @ exc_text e]"
  using assms
  by (auto simp: save_to_db_def insert_conversation_def print_line_def stored_rows_def now_str_def
        db_execute_def Let_def split_beta split: option.splits prod.splits sum.splits)

lemma insert_conversation_rejected:
  assumes "db_conn w = Some db" and "db_fault db (db_ops db) = Some e"
  shows "fst (insert_conversation w s p m t) = Inl e"
  using assms by (simp add: insert_conversation_def db_execute_def now_str_def)

lemma insert_conversation_unavailable:
  assumes "db_conn w = None"
  shows "fst (insert_conversation w s p m t) = Inl no_cursor"
  using assms by (simp add: insert_conversation_def)

lemma fetch_history_disabled: "\<not> use_db cfg \<Longrightarrow> fetch_history cfg w s l = ([], w)"
  by (simp add: fetch_history_def)

lemma fetch_history_failing:
  assumes "fst (select_history w s l) = Inl e"
  shows "fst (fetch_history cfg w s l) = []"
  using assms by (auto simp: fetch_history_def split: prod.splits sum.splits)

lemma select_history_rejected:
  assumes "db_conn w = Some db" and "db_fault db (db_ops db) = Some e"
  shows "fst (select_history w s l) = Inl e"
  using assms by (simp add: select_history_def db_execute_def)

lemma clear_history_rejected:
  assumes "db_conn w = Some db" and "db_fault db (db_ops db) = Some e"
  shows "fst (clear_history w sid) = (ErrorBody (exc_text e), 500)"
    and "stored_rows (snd (clear_history w sid)) = stored_rows w"
  using assms by (simp_all add: clear_history_def db_execute_def stored_rows_def)

text \<open>
  Claim C6 says that every storage operation reachable from a request returns a normal
  result when the backend rejects the statement, \<open>clear_history\<close> included. At a backend
  that rejects the delete, \<open>clear_history\<close> answers with the error body and status 500.
\<close>

theorem clear_history_surfaces_failure:
  "fst (clear_history
          (demo_world (Raises (Exc TimeoutExpired []))
             (Some (demo_database (Some (Exc DatabaseError ''server has gone away'')))))
          (Some ''s1''))
   = (ErrorBody ''server has gone away'', 500)"
  by (simp add: clear_history_def db_execute_def demo_world_def demo_database_def)

text \<open>
  Claim C6, amended. A failing append of \<open>save_to_db\<close> is printed and leaves the stored
  rows as they were, and the function returns; with storage disabled \<open>save_to_db\<close> does
  nothing and \<open>fetch_history\<close> returns the empty list; a failing \<open>fetch_history\<close> returns
  the empty list. \<open>clear_history\<close> does not contain a failure: when the backend rejects
  the delete, the caller gets the error body with the text of the exception and status
  500, and no row is deleted.
\<close>

theorem persistence_failures_contained_except_clear:
  "(use_db cfg \<and> fst (insert_conversation w s p m t) = Inl e \<longrightarrow>
      save_to_db cfg w s p m t
        = print_line (snd (insert_conversation w s p m t)) (''[DB] insert failed: '' @ exc_text e) \<and>
      stored_rows (save_to_db cfg w s p m t) = stored_rows w) \<and>
   (\<not> use_db cfg \<longrightarrow> save_to_db cfg w s p m t = w \<and> fetch_history cfg w s l = ([], w)) \<and>
   (fst (select_history w s l) = Inl e \<longrightarrow> fst (fetch_history cfg w s l) = []) \<and>
   (db_conn w = Some db \<and> db_fault db (db_ops db) = Some e \<longrightarrow>
      fst (insert_conversation w s p m t) = Inl e \<and>
      fst (select_history w s l) = Inl e \<and>
      fst (clear_history w sid) = (ErrorBody (exc_text e), 500) \<and>
      stored_rows (snd (clear_history w sid)) = stored_rows w)"
  using save_to_db_failing(1,2) [of cfg w s p m t e] save_to_db_disabled [of cfg w s p m t]
    fetch_history_failing [of w s l e cfg] fetch_history_disabled [of cfg w s l]
    insert_conversation_rejected [of w db e s p m t] select_history_rejected [of w db e s l]
    clear_history_rejected [of w db e sid]
  by simp

theorem persistence_failures_contained_except_clear_witness:
  "console (save_to_db demo_config
              (demo_world (Raises (Exc TimeoutExpired []))
                 (Some (demo_database (Some (Exc DatabaseError ''gone'')))))
              ''s1'' ''sky'' ''hi'' ''bot'') = [''[DB] insert failed: gone''] \<and>
   fst (fetch_history demo_config
          (demo_world (Raises (Exc TimeoutExpired []))
             (Some (demo_database (Some (Exc DatabaseError ''gone'')))))
          ''s1'' 500) = [] \<and>
   fst (clear_history
          (demo_world (Raises (Exc TimeoutExpired []))
             (Some (demo_database (Some (Exc DatabaseError ''gone'')))))
          (Some ''s1'')) = (ErrorBody ''gone'', 500) \<and>
   fetch_history (demo_config\<lparr>use_db := False\<rparr>) (demo_world (Raises (Exc TimeoutExpired [])) None)
     ''s1'' 500 = ([], demo_world (Raises (Exc TimeoutExpired [])) None)"
proof -
  let ?db = "demo_database (Some (Exc DatabaseError ''gone''))"
  let ?w = "demo_world (Raises (Exc TimeoutExpired [])) (Some ?db)"
  let ?v = "demo_world (Raises (Exc TimeoutExpired [])) None"
  have on: "use_db demo_config" "\<not> use_db (demo_config\<lparr>use_db := False\<rparr>)"
    by (simp_all add: demo_config_def)
  have conn: "db_conn ?w = Some ?db" by (simp add: demo_world_def)
  have rej: "db_fault ?db (db_ops ?db) = Some (Exc DatabaseError ''gone'')"
    by (simp add: demo_database_def)
  have lines: "console (snd (insert_conversation ?w ''s1'' ''sky'' ''hi'' ''bot'')) = []"
    by (simp add: insert_conversation_def demo_world_def demo_database_def now_str_def db_execute_def)
  from persistence_failures_contained_except_clear
         [of demo_config ?w "''s1''" "''sky''" "''hi''" "''bot''" "Exc DatabaseError ''gone''" 500
             ?db "Some ''s1''"]
       persistence_failures_contained_except_clear
         [of "demo_config\<lparr>use_db := False\<rparr>" ?v "''s1''" "''sky''" "''hi''" "''bot''"
             "Exc DatabaseError ''gone''" 500 ?db "Some ''s1''"]
       on conn rej lines
  show ?thesis by (simp add: print_line_def)
qed

section \<open>Dataset exporter: appending\<close>

lemma file_write_files:
  "files (file_write w fp s) = (files w)(fp \<mapsto> file_content w fp @ s)"
  by (simp add: file_write_def)

lemma file_content_write [simp]:
  "file_content (file_write w fp s) fp = file_content w fp @ s"
  by (simp add: file_write_def file_content_def)

lemma file_content_open [simp]:
  "file_content (open_append w fp) fp = file_content w fp"
  by (simp add: open_append_def file_content_def)

lemma files_write_loop:
  "files (foldl (\<lambda>w' e. file_write w' fp (f e)) (file_write w fp s) es) fp
     = Some (file_content w fp @ s @ concat (map f es))"
proof (induction es arbitrary: w s)
  case Nil
  show ?case by (simp add: file_write_files)
next
  case (Cons e es)
  have "files (foldl (\<lambda>w' e. file_write w' fp (f e)) (file_write (file_write w fp s) fp (f e)) es) fp
          = Some (file_content (file_write w fp s) fp @ f e @ concat (map f es))"
    by (rule Cons.IH)
  then show ?case by simp
qed

lemma files_open_loop:
  "files (foldl (\<lambda>w' e. file_write w' fp (f e)) (open_append w fp) es) fp
     = Some (file_content w fp @ concat (map f es))"
proof -
  have "open_append w fp = file_write w fp []"
    by (simp add: open_append_def file_write_def)
  then show ?thesis using files_write_loop [of fp f w "[]" es] by simp
qed

lemma open_then_write: "file_write (open_append w fp) fp s = file_write w fp s"
  by (simp add: open_append_def file_write_def file_content_def)

lemma append_dataset_lines_files:
  "files (append_dataset_lines w fp sid fmt es) fp =
     Some (file_content w fp
           @ (if fmt = ''csv'' \<and> files w fp = None then csv_writerow csv_header else [])
           @ concat (map (if fmt = ''csv'' then csv_line sid else json_line sid) es))"
  by (simp add: append_dataset_lines_def Let_def files_open_loop files_write_loop open_then_write)

lemma file_content_Some: "files w fp = Some c \<Longrightarrow> file_content w fp = c"
  by (simp add: file_content_def)

text \<open>
  Claim C7. \<open>append_dataset_lines\<close> keeps the content of the destination and adds its
  records at the end; the CSV header is written once, exactly when the destination did
  not exist before; and a second, identical export leaves the prior content followed
  by the header, if one was due, and by the batch of records twice.
\<close>

theorem append_dataset_lines_append_only:
  "files (append_dataset_lines w fp sid fmt es) fp =
     Some (file_content w fp
           @ (if fmt = ''csv'' \<and> files w fp = None then csv_writerow csv_header else [])
           @ concat (map (if fmt = ''csv'' then csv_line sid else json_line sid) es)) \<and>
   files (append_dataset_lines (append_dataset_lines w fp sid fmt es) fp sid fmt es) fp =
     Some (file_content w fp
           @ (if fmt = ''csv'' \<and> files w fp = None then csv_writerow csv_header else [])
           @ concat (map (if fmt = ''csv'' then csv_line sid else json_line sid) es)
           @ concat (map (if fmt = ''csv'' then csv_line sid else json_line sid) es))"
proof -
  let ?w1 = "append_dataset_lines w fp sid fmt es"
  have one: "files ?w1 fp =
     Some (file_content w fp
           @ (if fmt = ''csv'' \<and> files w fp = None then csv_writerow csv_header else [])
           @ concat (map (if fmt = ''csv'' then csv_line sid else json_line sid) es))"
    by (rule append_dataset_lines_files)
  then have ex: "files ?w1 fp \<noteq> None" by simp
  from one have c: "file_content ?w1 fp = file_content w fp
           @ (if fmt = ''csv'' \<and> files w fp = None then csv_writerow csv_header else [])
           @ concat (map (if fmt = ''csv'' then csv_line sid else json_line sid) es)"
    by (rule file_content_Some)
  have "files (append_dataset_lines ?w1 fp sid fmt es) fp =
     Some (file_content ?w1 fp
           @ (if fmt = ''csv'' \<and> files ?w1 fp = None then csv_writerow csv_header else [])
           @ concat (map (if fmt = ''csv'' then csv_line sid else json_line sid) es))"
    by (rule append_dataset_lines_files)
  with ex c one show ?thesis by simp
qed

theorem append_dataset_lines_append_only_witness:
  "files (append_dataset_lines
            (append_dataset_lines (demo_world (Raises (Exc TimeoutExpired [])) None)
               ''/data/x.csv'' ''s1'' ''csv''
               [\<lparr>e_provider = ''sky'', e_message = ''a,b'', e_timestamp = ''t'', e_type = None\<rparr>])
            ''/data/x.csv'' ''s1'' ''csv''
            [\<lparr>e_provider = ''sky'', e_message = ''a,b'', e_timestamp = ''t'', e_type = None\<rparr>])
     ''/data/x.csv''
   = Some (''timestamp,session_id,provider,message,type'' @ crlf
           @ ''t,s1,sky,'' @ [CHR 0x22] @ ''a,b'' @ [CHR 0x22] @ '',bot'' @ crlf
           @ ''t,s1,sky,'' @ [CHR 0x22] @ ''a,b'' @ [CHR 0x22] @ '',bot'' @ crlf)"
  using append_dataset_lines_append_only
          [of "demo_world (Raises (Exc TimeoutExpired [])) None" "''/data/x.csv''" "''s1''" "''csv''"
              "[\<lparr>e_provider = ''sky'', e_message = ''a,b'', e_timestamp = ''t'', e_type = None\<rparr>]"]
  by (simp add: demo_world_def file_content_def csv_writerow_def csv_header_def csv_line_def
        csv_field_def csv_special_def type_or_bot_def crlf_def)

section \<open>Request handlers: storage, rejection, unknown providers\<close>

lemma save_to_db_launches:
  "subprocess_run (save_to_db cfg w s p m t) = subprocess_run w"
  "invocations (save_to_db cfg w s p m t) = invocations w"
  by (simp_all add: save_to_db_def insert_conversation_def print_line_def now_str_def
        db_execute_def Let_def split: option.splits)

lemma fetch_history_launches:
  "invocations (snd (fetch_history cfg w s l)) = invocations w"
  by (simp add: fetch_history_def select_history_def print_line_def db_execute_def Let_def
        split: option.splits)

lemma write_loop_launches:
  "invocations (foldl (\<lambda>w' e. file_write w' fp (f e)) w es) = invocations w"
  by (induction es arbitrary: w) (simp_all add: file_write_def)

lemma file_ops_launches:
  "invocations (file_write w fp s) = invocations w"
  "invocations (open_append w fp) = invocations w"
  by (simp_all add: file_write_def open_append_def)

lemma append_dataset_lines_launches:
  "invocations (append_dataset_lines w fp sid fmt es) = invocations w"
  by (simp add: append_dataset_lines_def Let_def write_loop_launches file_ops_launches)

lemma append_dataset_dialog_launches:
  "invocations (append_dataset_dialog w fp sid fmt d) = invocations w"
  by (simp add: append_dataset_dialog_def Let_def split_beta file_ops_launches now_str_def)

lemma dataset_path_launches:
  "invocations (snd (dataset_path cfg w fn fmt)) = invocations w"
  by (simp add: dataset_path_def Let_def time_time_def split_beta)

lemma save_dataset_step_launches:
  "invocations (snd (save_dataset_step cfg w sd fn fmt shape sid es)) = invocations w"
  by (simp add: save_dataset_step_def Let_def split_beta append_dataset_lines_launches
        append_dataset_dialog_launches dataset_path_launches fetch_history_launches)

lemma save_replies_launches:
  "invocations (snd (save_replies cfg w sid mt rs)) = invocations w"
  by (induction rs arbitrary: w) (simp_all add: split_beta Let_def save_to_db_launches)

lemma assemble_launches: "invocations (snd (assemble w prs)) = invocations w"
  by (induction prs arbitrary: w) (auto simp: split_beta Let_def now_str_def)

lemma run_tasks_launches:
  "invocations (snd (run_tasks cfg w P T)) = invocations w @ map (\<lambda>p. tgpt_cmd cfg p T) P"
  by (induction P arbitrary: w) (simp_all add: split_beta Let_def run_tgpt_blocking_world)

lemma ask_providers_parallel_launches:
  "invocations (snd (ask_providers_parallel cfg w P T))
     = invocations w @ map (\<lambda>p. tgpt_cmd cfg p T) P"
  by (simp add: ask_providers_parallel_def split_beta assemble_launches run_tasks_launches)

lemma ask_providers_parallel_providers:
  "map r_provider (fst (ask_providers_parallel cfg w P T)) = P"
  by (simp add: ask_providers_parallel_def split_beta assemble_providers run_tasks_length)

lemma run_tasks_cong:
  assumes "subprocess_run w = subprocess_run w'" and "invocations w = invocations w'"
      and "tgpt_bin cfg = tgpt_bin cfg'" and "tgpt_timeout cfg = tgpt_timeout cfg'"
  shows "fst (run_tasks cfg w P T) = fst (run_tasks cfg' w' P T)"
  using assms(1,2)
proof (induction P arbitrary: w w')
  case Nil
  show ?case by simp
next
  case (Cons p ps)
  have cmd: "tgpt_cmd cfg p T = tgpt_cmd cfg' p T"
    using assms(3) by (simp add: tgpt_cmd_def)
  have r: "fst (run_tgpt_blocking cfg w p T) = fst (run_tgpt_blocking cfg' w' p T)"
    using Cons.prems cmd assms(4)
    by (simp add: run_tgpt_blocking_def launch_def Let_def split: run_outcome.splits)
  have "fst (run_tasks cfg (snd (run_tgpt_blocking cfg w p T)) ps T)
          = fst (run_tasks cfg' (snd (run_tgpt_blocking cfg' w' p T)) ps T)"
    by (rule Cons.IH) (simp_all add: run_tgpt_blocking_world Cons.prems cmd)
  with r show ?case by (simp add: split_beta Let_def)
qed

lemma assemble_content:
  "map (\<lambda>r. (r_provider r, r_reply r)) (fst (assemble w prs))
     = map (\<lambda>(p, r). (p, case r of Inl e \<Rightarrow> error_text p (exc_text e) | Inr s \<Rightarrow> s)) prs"
  by (induction prs arbitrary: w) (auto simp: split_beta Let_def split: sum.splits)

lemma ask_providers_parallel_cong:
  assumes "subprocess_run w = subprocess_run w'" and "invocations w = invocations w'"
      and "tgpt_bin cfg = tgpt_bin cfg'" and "tgpt_timeout cfg = tgpt_timeout cfg'"
  shows "map (\<lambda>r. (r_provider r, r_reply r)) (fst (ask_providers_parallel cfg w P T))
           = map (\<lambda>r. (r_provider r, r_reply r)) (fst (ask_providers_parallel cfg' w' P T))"
  using run_tasks_cong [OF assms, of P T]
  by (simp add: ask_providers_parallel_def split_beta assemble_content)

lemma singleton_content:
  "length rs = 1 \<Longrightarrow> [(r_provider (rs ! 0), r_reply (rs ! 0))] = map (\<lambda>r. (r_provider r, r_reply r)) rs"
  by (cases rs) simp_all

lemma ask_dispatch_content:
  "reply_content (fst (ask_dispatch cfg w sid q sd fmt shape fn P))
     = map (\<lambda>r. (r_provider r, r_reply r))
         (fst (ask_providers_parallel cfg w P
                 (if q = [] then q else q @ newline @ newline @ ask_guidance)))"
  by (simp add: ask_dispatch_def reply_content_def Let_def split_beta singleton_content)

lemma ask_dispatch_cong:
  assumes "subprocess_run w = subprocess_run w'" and "invocations w = invocations w'"
      and "tgpt_bin cfg = tgpt_bin cfg'" and "tgpt_timeout cfg = tgpt_timeout cfg'"
  shows "reply_content (fst (ask_dispatch cfg w sid q sd fmt shape fn P))
           = reply_content (fst (ask_dispatch cfg' w' sid q sd fmt shape fn P))"
  by (simp only: ask_dispatch_content ask_providers_parallel_cong [OF assms])

lemma ask_cong:
  assumes "subprocess_run w = subprocess_run w'" and "invocations w = invocations w'"
      and "tgpt_bin cfg = tgpt_bin cfg'" and "tgpt_timeout cfg = tgpt_timeout cfg'"
  shows "reply_content (fst (ask cfg w req)) = reply_content (fst (ask cfg' w' req))"
proof -
  let ?sid = "strip (or_else (form req ''session_id'') ''default'')"
  let ?q = "strip (or_else (form req ''query'') [])"
  let ?w1 = "if ?q \<noteq> [] then save_to_db cfg w ?sid ''user'' ?q ''user'' else w"
  let ?w1' = "if ?q \<noteq> [] then save_to_db cfg' w' ?sid ''user'' ?q ''user'' else w'"
  have a: "subprocess_run ?w1 = subprocess_run ?w1'" "invocations ?w1 = invocations ?w1'"
    using assms(1,2) by (simp_all add: save_to_db_launches)
  show ?thesis
    unfolding ask_def Let_def
    using ask_dispatch_cong [OF a assms(3,4)]
    by (simp add: reply_content_def)
qed

text \<open>
  Claim C8. Two runs of \<open>/ask\<close> that differ only in whether storage is enabled (the flag
  \<open>USE_DB\<close> and the connection) give the same reply text for every provider; and with
  storage disabled \<open>fetch_history\<close> returns the empty list for every session identifier
  and limit, without raising.
\<close>

theorem storage_does_not_change_replies:
  "reply_content (fst (ask (cfg\<lparr>use_db := True\<rparr>) (w\<lparr>db_conn := d1\<rparr>) req))
     = reply_content (fst (ask (cfg\<lparr>use_db := False\<rparr>) (w\<lparr>db_conn := d2\<rparr>) req)) \<and>
   fetch_history (cfg\<lparr>use_db := False\<rparr>) w sid limit = ([], w)"
proof -
  have "reply_content (fst (ask (cfg\<lparr>use_db := True\<rparr>) (w\<lparr>db_conn := d1\<rparr>) req))
          = reply_content (fst (ask (cfg\<lparr>use_db := False\<rparr>) (w\<lparr>db_conn := d2\<rparr>) req))"
    by (rule ask_cong) simp_all
  then show ?thesis by (simp add: fetch_history_def)
qed

theorem storage_does_not_change_replies_witness:
  "reply_content (fst (ask (demo_config\<lparr>use_db := True\<rparr>)
       ((demo_world (Completes \<lparr>returncode = 0, stdout = Some ''hello'', stderr = None\<rparr>) None)
          \<lparr>db_conn := Some (demo_database None)\<rparr>)
       \<lparr>form = [''query'' \<mapsto> ''hi'', ''provider'' \<mapsto> ''sky''], upload_names = []\<rparr>))
   = reply_content (fst (ask (demo_config\<lparr>use_db := False\<rparr>)
       ((demo_world (Completes \<lparr>returncode = 0, stdout = Some ''hello'', stderr = None\<rparr>) None)
          \<lparr>db_conn := None\<rparr>)
       \<lparr>form = [''query'' \<mapsto> ''hi'', ''provider'' \<mapsto> ''sky''], upload_names = []\<rparr>))"
  using storage_does_not_change_replies
          [where cfg = demo_config
             and w = "demo_world (Completes \<lparr>returncode = 0, stdout = Some ''hello'', stderr = None\<rparr>) None"
             and ?d1.0 = "Some (demo_database None)" and ?d2.0 = None
             and req = "\<lparr>form = [''query'' \<mapsto> ''hi'', ''provider'' \<mapsto> ''sky''], upload_names = []\<rparr>"
             and sid = "''s1''" and limit = 500]
  by simp

lemma save_to_db_accepted:
  assumes "use_db cfg" and "db_conn w = Some db" and "db_fault db (db_ops db) = None"
  shows "stored_rows (save_to_db cfg w s p m t)
           = conversations db @ [\<lparr>c_session_id = s, c_provider = p, c_message = m, c_type = t,
                                   c_timestamp = now_at w (ticks w)\<rparr>]"
  using assms
  by (simp add: save_to_db_def insert_conversation_def now_str_def db_execute_def stored_rows_def)

text \<open>
  Claim C10. An \<open>/ask\<close> request with a non-empty query and an unknown provider is
  rejected only after \<open>save_to_db\<close> has been called with the user's message and type
  \<open>user\<close>: the world left by the rejected request is the world left by that call, and
  when storage is enabled and accepts the insert the table has one more row.
\<close>

theorem ask_rejects_after_saving_user_message:
  assumes "strip (or_else (form req ''query'') []) \<noteq> []"
      and "strip (or_else (form req ''provider'') ''phind'') \<notin> set VALID_PROVIDERS"
      and "strip (or_else (form req ''provider'') ''phind'') \<noteq> ''group''"
  shows "ask cfg w req =
           ((ErrorBody (invalid_provider_text (strip (or_else (form req ''provider'') ''phind''))), 200),
            save_to_db cfg w (strip (or_else (form req ''session_id'') ''default'')) ''user''
              (strip (or_else (form req ''query'') [])) ''user'') \<and>
         (use_db cfg \<and> db_conn w = Some db \<and> db_fault db (db_ops db) = None \<longrightarrow>
            stored_rows (snd (ask cfg w req)) =
              conversations db @
                [\<lparr>c_session_id = strip (or_else (form req ''session_id'') ''default''),
                  c_provider = ''user'', c_message = strip (or_else (form req ''query'') []),
                  c_type = ''user'', c_timestamp = now_at w (ticks w)\<rparr>])"
proof -
  have eq: "ask cfg w req =
           ((ErrorBody (invalid_provider_text (strip (or_else (form req ''provider'') ''phind''))), 200),
            save_to_db cfg w (strip (or_else (form req ''session_id'') ''default'')) ''user''
              (strip (or_else (form req ''query'') [])) ''user'')"
    using assms unfolding ask_def Let_def by simp
  show ?thesis
    unfolding eq using save_to_db_accepted [of cfg w db] by simp
qed

theorem ask_rejects_after_saving_user_message_witness:
  "stored_rows (snd (ask demo_config
       (demo_world (Raises (Exc TimeoutExpired [])) (Some (demo_database None)))
       \<lparr>form = [''query'' \<mapsto> ''hi'', ''provider'' \<mapsto> ''bogus''], upload_names = []\<rparr>))
   = [\<lparr>c_session_id = ''default'', c_provider = ''user'', c_message = ''hi'', c_type = ''user'',
       c_timestamp = ''2024-01-01 00:00:00''\<rparr>]"
proof -
  let ?w = "demo_world (Raises (Exc TimeoutExpired [])) (Some (demo_database None))"
  let ?req = "\<lparr>form = [''query'' \<mapsto> ''hi'', ''provider'' \<mapsto> ''bogus''], upload_names = []\<rparr>"
  have q: "strip (or_else (form ?req ''query'') []) = ''hi''"
    by (simp add: strip_def or_else_def isspace_def)
  have p: "strip (or_else (form ?req ''provider'') ''phind'') = ''bogus''"
    by (simp add: strip_def or_else_def isspace_def)
  have s: "strip (or_else (form ?req ''session_id'') ''default'') = ''default''"
    by (simp add: strip_def or_else_def isspace_def)
  have h1: "strip (or_else (form ?req ''query'') []) \<noteq> []" by (simp only: q) simp
  have h2: "strip (or_else (form ?req ''provider'') ''phind'') \<notin> set VALID_PROVIDERS"
    by (simp only: p) (simp add: VALID_PROVIDERS_def)
  have h3: "strip (or_else (form ?req ''provider'') ''phind'') \<noteq> ''group''"
    by (simp only: p) simp
  have st: "use_db demo_config \<and> db_conn ?w = Some (demo_database None) \<and>
            db_fault (demo_database None) (db_ops (demo_database None)) = None"
    by (simp add: demo_config_def demo_world_def demo_database_def)
  have v: "conversations (demo_database None) = []" "now_at ?w (ticks ?w) = ''2024-01-01 00:00:00''"
    by (simp_all add: demo_database_def demo_world_def)
  from ask_rejects_after_saving_user_message [OF h1 h2 h3, of demo_config ?w "demo_database None"] st
  have "stored_rows (snd (ask demo_config ?w ?req)) =
          conversations (demo_database None) @
            [\<lparr>c_session_id = strip (or_else (form ?req ''session_id'') ''default''),
              c_provider = ''user'', c_message = strip (or_else (form ?req ''query'') []),
              c_type = ''user'', c_timestamp = now_at ?w (ticks ?w)\<rparr>]"
    by blast
  then show ?thesis by (simp only: q s v) simp
qed

lemma ask_unknown_provider:
  assumes "strip (or_else (form req ''provider'') ''phind'') \<notin> set VALID_PROVIDERS"
      and "strip (or_else (form req ''provider'') ''phind'') \<noteq> ''group''"
  shows "fst (ask cfg w req) =
           (if strip (or_else (form req ''query'') []) = [] \<and> ''file'' \<notin> set (upload_names req)
            then (ErrorBody ''empty query'', 200)
            else (ErrorBody (invalid_provider_text
                               (strip (or_else (form req ''provider'') ''phind''))), 200))"
    and "invocations (snd (ask cfg w req)) = invocations w"
  using assms unfolding ask_def Let_def by (simp_all add: save_to_db_launches)

lemma resolve_providers_kept:
  "resolve_providers requested =
     (if filter (\<lambda>p. p \<in> set VALID_PROVIDERS) (case requested of None \<Rightarrow> [] | Some ps \<Rightarrow> ps) = []
      then GROUP_LIST
      else filter (\<lambda>p. p \<in> set VALID_PROVIDERS) (case requested of None \<Rightarrow> [] | Some ps \<Rightarrow> ps))"
proof (cases requested)
  case None
  then show ?thesis by (simp add: resolve_providers_def)
next
  case (Some ps)
  have grp: "filter (\<lambda>p. p \<in> set VALID_PROVIDERS) [''group''] = []"
    by (simp add: VALID_PROVIDERS_def)
  consider (empty) "ps = []" | (group) "ps = [''group'']" | (other) "ps \<noteq> []" "ps \<noteq> [''group'']"
    by blast
  then show ?thesis
  proof cases
    case empty
    with Some show ?thesis by (simp add: resolve_providers_def)
  next
    case group
    with Some grp show ?thesis by (simp add: resolve_providers_def)
  next
    case other
    have "\<not> (length ps = Suc 0 \<and> ps ! 0 = ''group'')"
    proof
      assume a: "length ps = Suc 0 \<and> ps ! 0 = ''group''"
      then obtain x where "ps = [x]" by (cases ps) auto
      with a other(2) show False by simp
    qed
    then have branch: "(ps = [''group''] \<or> length ps = Suc 0 \<and> ps ! 0 = ''group'') = False"
      using other(2) by simp
    have "resolve_providers (Some ps) =
            (if filter (\<lambda>p. p \<in> set VALID_PROVIDERS) ps = [] then GROUP_LIST
             else filter (\<lambda>p. p \<in> set VALID_PROVIDERS) ps)"
      using other(1) by (simp add: resolve_providers_def Let_def branch)
    with Some show ?thesis by simp
  qed
qed

lemma resolve_providers_valid:
  "set (resolve_providers ps) \<subseteq> set VALID_PROVIDERS" "resolve_providers ps \<noteq> []"
  by (auto simp: resolve_providers_def GROUP_LIST_def Let_def VALID_PROVIDERS_def split: option.splits)

lemma brainstorm_response:
  "\<exists>rs sv. fst (brainstorm cfg w d) = (MultiBody rs sv, 200) \<and>
      map r_provider rs = resolve_providers (b_providers d)"
  by (simp add: brainstorm_def Let_def split_beta ask_providers_parallel_providers)

lemma brainstorm_launches:
  "invocations (snd (brainstorm cfg w d))
     = invocations w @
       map (\<lambda>p. tgpt_cmd cfg p
                  (build_brainstorm_prompt cfg (case b_messages d of None \<Rightarrow> [] | Some ms \<Rightarrow> ms)))
         (resolve_providers (b_providers d))"
  by (simp add: brainstorm_def Let_def split_beta save_dataset_step_launches save_replies_launches
        ask_providers_parallel_launches)

text \<open>
  Claim C5 says that a request naming a provider outside the valid set is rejected and
  launches nothing, at \<open>/brainstorm\<close> as at \<open>/ask\<close>. A \<open>/brainstorm\<close> request for the
  unknown provider \<open>bogus\<close> is answered with the replies of all five providers, after
  five launches.
\<close>

theorem brainstorm_unknown_provider_invokes_group:
  "reply_content (fst (brainstorm demo_config
       (demo_world (Completes \<lparr>returncode = 0, stdout = Some ''hello'', stderr = None\<rparr>) None)
       \<lparr>b_session_id = None, b_providers = Some [''bogus''], b_messages = None,
        b_save_dataset = None, b_save_format = None, b_save_shape = None, b_filename = None\<rparr>))
     = [(''pollinations'', ''hello''), (''sky'', ''hello''), (''phind'', ''hello''),
        (''koboldai'', ''hello''), (''kimi'', ''hello'')] \<and>
   length (invocations (snd (brainstorm demo_config
       (demo_world (Completes \<lparr>returncode = 0, stdout = Some ''hello'', stderr = None\<rparr>) None)
       \<lparr>b_session_id = None, b_providers = Some [''bogus''], b_messages = None,
        b_save_dataset = None, b_save_format = None, b_save_shape = None, b_filename = None\<rparr>))) = 5"
proof -
  let ?w = "demo_world (Completes \<lparr>returncode = 0, stdout = Some ''hello'', stderr = None\<rparr>) None"
  let ?d = "\<lparr>b_session_id = None, b_providers = Some [''bogus''], b_messages = None,
        b_save_dataset = None, b_save_format = None, b_save_shape = None, b_filename = None\<rparr>"
  have group: "resolve_providers (b_providers ?d)
                 = [''pollinations'', ''sky'', ''phind'', ''koboldai'', ''kimi'']"
    by (simp add: resolve_providers_def GROUP_LIST_def VALID_PROVIDERS_def)
  have hello: "strip (or_else (Some ''hello'') []) = ''hello''"
    by (simp add: strip_def or_else_def isspace_def)
  have one: "\<And>v p T. subprocess_run v = subprocess_run ?w \<Longrightarrow>
               fst (run_tgpt_blocking demo_config v p T) = Inr ''hello'' \<and>
               subprocess_run (snd (run_tgpt_blocking demo_config v p T)) = subprocess_run ?w"
    by (simp add: run_tgpt_blocking_def launch_def demo_world_def hello)
  have tasks: "\<And>v T. subprocess_run v = subprocess_run ?w \<Longrightarrow>
      fst (run_tasks demo_config v [''pollinations'', ''sky'', ''phind'', ''koboldai'', ''kimi''] T)
        = [Inr ''hello'', Inr ''hello'', Inr ''hello'', Inr ''hello'', Inr ''hello'']"
    by (simp add: split_beta Let_def one)
  have replies: "\<And>T. map (\<lambda>r. (r_provider r, r_reply r))
      (fst (ask_providers_parallel demo_config ?w
              [''pollinations'', ''sky'', ''phind'', ''koboldai'', ''kimi''] T))
      = [(''pollinations'', ''hello''), (''sky'', ''hello''), (''phind'', ''hello''),
         (''koboldai'', ''hello''), (''kimi'', ''hello'')]"
    by (simp add: ask_providers_parallel_def split_beta assemble_content tasks [OF refl]
          del: run_tasks.simps)
  have content: "reply_content (fst (brainstorm demo_config ?w ?d))
      = map (\<lambda>r. (r_provider r, r_reply r))
          (fst (ask_providers_parallel demo_config ?w (resolve_providers (b_providers ?d))
                  (build_brainstorm_prompt demo_config [])))"
    by (simp add: brainstorm_def Let_def split_beta reply_content_def)
  have launches: "length (invocations (snd (brainstorm demo_config ?w ?d)))
                    = length (invocations ?w) + length (resolve_providers (b_providers ?d))"
    by (simp add: brainstorm_launches)
  have "invocations ?w = []" by (simp add: demo_world_def)
  with launches group content replies show ?thesis by (simp only: list.size) simp
qed

text \<open>
  Claim C5, amended. An \<open>/ask\<close> request whose provider is neither \<open>group\<close> nor in the
  valid set launches nothing and is answered with an error body and status 200:
  \<open>empty query\<close> when the query is empty and no file is uploaded, \<open>invalid provider\<close>
  with the identifier otherwise. \<open>/brainstorm\<close> rejects nothing: it keeps the requested
  identifiers that are in the valid set, in their order, and takes the whole group when
  it kept none; it answers with one reply per provider of that list and launches exactly
  those providers, in that order.
\<close>

theorem unknown_provider_rejected_by_ask_filtered_by_brainstorm:
  "(strip (or_else (form req ''provider'') ''phind'') \<notin> set VALID_PROVIDERS \<and>
    strip (or_else (form req ''provider'') ''phind'') \<noteq> ''group'' \<longrightarrow>
      fst (ask cfg w req) =
        (if strip (or_else (form req ''query'') []) = [] \<and> ''file'' \<notin> set (upload_names req)
         then (ErrorBody ''empty query'', 200)
         else (ErrorBody (invalid_provider_text
                            (strip (or_else (form req ''provider'') ''phind''))), 200)) \<and>
      invocations (snd (ask cfg w req)) = invocations w) \<and>
   resolve_providers (b_providers d) =
     (if filter (\<lambda>p. p \<in> set VALID_PROVIDERS)
           (case b_providers d of None \<Rightarrow> [] | Some ps \<Rightarrow> ps) = []
      then GROUP_LIST
      else filter (\<lambda>p. p \<in> set VALID_PROVIDERS)
             (case b_providers d of None \<Rightarrow> [] | Some ps \<Rightarrow> ps)) \<and>
   (\<exists>rs sv. fst (brainstorm cfg w d) = (MultiBody rs sv, 200) \<and>
      map r_provider rs = resolve_providers (b_providers d)) \<and>
   invocations (snd (brainstorm cfg w d))
     = invocations w @
       map (\<lambda>p. tgpt_cmd cfg p
                  (build_brainstorm_prompt cfg (case b_messages d of None \<Rightarrow> [] | Some ms \<Rightarrow> ms)))
         (resolve_providers (b_providers d))"
  using ask_unknown_provider [of req cfg w] brainstorm_response [of cfg w d]
    brainstorm_launches [of cfg w d] resolve_providers_kept [of "b_providers d"]
  by blast

theorem unknown_provider_rejected_by_ask_filtered_by_brainstorm_witness:
  "fst (ask demo_config (demo_world (Raises (Exc TimeoutExpired [])) None)
          \<lparr>form = [''query'' \<mapsto> ''hi'', ''provider'' \<mapsto> ''bogus''], upload_names = []\<rparr>)
     = (ErrorBody (''invalid provider '' @ [CHR 0x27] @ ''bogus'' @ [CHR 0x27]), 200) \<and>
   invocations (snd (ask demo_config (demo_world (Raises (Exc TimeoutExpired [])) None)
          \<lparr>form = [''query'' \<mapsto> ''hi'', ''provider'' \<mapsto> ''bogus''], upload_names = []\<rparr>)) = [] \<and>
   resolve_providers (Some [''sky'', ''bogus'']) = [''sky'']"
proof -
  let ?w = "demo_world (Raises (Exc TimeoutExpired [])) None"
  let ?req = "\<lparr>form = [''query'' \<mapsto> ''hi'', ''provider'' \<mapsto> ''bogus''], upload_names = []\<rparr>"
  let ?d = "\<lparr>b_session_id = None, b_providers = Some [''sky'', ''bogus''], b_messages = None,
             b_save_dataset = None, b_save_format = None, b_save_shape = None,
             b_filename = None\<rparr>"
  have p: "strip (or_else (form ?req ''provider'') ''phind'') = ''bogus''"
    by (simp add: strip_def or_else_def isspace_def)
  have q: "strip (or_else (form ?req ''query'') []) = ''hi''"
    by (simp add: strip_def or_else_def isspace_def)
  have h: "strip (or_else (form ?req ''provider'') ''phind'') \<notin> set VALID_PROVIDERS \<and>
           strip (or_else (form ?req ''provider'') ''phind'') \<noteq> ''group''"
    by (simp only: p) (simp add: VALID_PROVIDERS_def)
  have inv: "invocations ?w = []" by (simp add: demo_world_def)
  from unknown_provider_rejected_by_ask_filtered_by_brainstorm [of ?req demo_config ?w ?d] h
  have "fst (ask demo_config ?w ?req) =
          (if strip (or_else (form ?req ''query'') []) = [] \<and> ''file'' \<notin> set (upload_names ?req)
           then (ErrorBody ''empty query'', 200)
           else (ErrorBody (invalid_provider_text
                              (strip (or_else (form ?req ''provider'') ''phind''))), 200))"
    and "invocations (snd (ask demo_config ?w ?req)) = invocations ?w"
    and "resolve_providers (b_providers ?d) =
           (if filter (\<lambda>p. p \<in> set VALID_PROVIDERS)
                 (case b_providers ?d of None \<Rightarrow> [] | Some ps \<Rightarrow> ps) = []
            then GROUP_LIST
            else filter (\<lambda>p. p \<in> set VALID_PROVIDERS)
                   (case b_providers ?d of None \<Rightarrow> [] | Some ps \<Rightarrow> ps))"
    by blast+
  then show ?thesis
    by (simp only: p q inv) (simp add: invalid_provider_text_def VALID_PROVIDERS_def)
qed

end
